theory Spec2Isabelle
  imports Main
begin

section \<open>BornProfiler: the membrane set-up classes of bornprofiler/membrane.py\<close>

text \<open>
  The module drives two external programs, the Poisson-Boltzmann solver (\<^verbatim>\<open>apbs\<close>) and
  the membrane geometry tool (\<^verbatim>\<open>draw_membrane2a\<close>), and writes solver input files from
  templates. The embedding below follows the three classes \<^verbatim>\<open>BaseMem\<close>, \<^verbatim>\<open>APBSmem\<close> and
  \<^verbatim>\<open>BornAPBSmem\<close> method by method. Every effect of a method (opening a file, writing it,
  spawning a process, emitting a warning) is an event appended to a trace, and every
  \<^verbatim>\<open>raise\<close> is an \<open>Inl\<close> result.
\<close>

subsection \<open>Python values and \<^verbatim>\<open>str\<close>\<close>

text \<open>
  The attributes that end up in templates and command lines are numbers and strings.
  \<open>PyFloat m e\<close> is the finite double \<open>m * 2 ^ e\<close>. \<open>PyObj s\<close> stands for any other object
  that is not a string (a bool, \<^verbatim>\<open>None\<close>, a non-finite float, ...), given by the text
  \<^verbatim>\<open>str()\<close> returns for it.
\<close>

datatype pyval = PyInt int | PyFloat int int | PyStr string | PyObj string

fun nat_str :: "nat \<Rightarrow> string" where
  "nat_str n =
     (if n < 10 then [''0123456789'' ! n]
      else nat_str (n div 10) @ [''0123456789'' ! (n mod 10)])"

declare nat_str.simps [simp del]

definition int_str :: "int \<Rightarrow> string" where
  "int_str i = (if i < 0 then CHR ''-'' # nat_str (nat (- i)) else nat_str (nat i))"

definition strip_zeros :: "string \<Rightarrow> string" where
  "strip_zeros s = rev (dropWhile (\<lambda>c. c = CHR ''0'') (rev s))"

definition round_half_even :: "nat \<Rightarrow> nat \<Rightarrow> nat" where
  "round_half_even num den =
     (let q = num div den; r = num mod den
      in if den < 2 * r \<or> (2 * r = den \<and> odd q) then q + 1 else q)"

text \<open>
  \<^verbatim>\<open>str(x)\<close> of a Python 2 float is the C format \<^verbatim>\<open>%.12g\<close> (twelve significant digits,
  correctly rounded, trailing zeros removed, exponent notation when the decimal exponent is
  below -4 or at least 12), with \<^verbatim>\<open>.0\<close> appended when the result would otherwise look like
  an integer. It is computed in integer arithmetic, in steps, for the positive rational
  \<open>p / d\<close>.
\<close>

text \<open>The decimal exponent \<open>x\<close> of \<open>p / d\<close>: \<open>10 ^ x \<le> p / d < 10 ^ (x + 1)\<close>.\<close>

definition decimal_exponent :: "nat \<Rightarrow> nat \<Rightarrow> int" where
  "decimal_exponent p d =
     (let k = int (length (nat_str p)) - int (length (nat_str d))
      in if (if 0 \<le> k then d * 10 ^ nat k \<le> p else d \<le> p * 10 ^ nat (- k))
         then k else k - 1)"

text \<open>\<open>p / d\<close> scaled to twelve digits before the point and rounded to an integer.\<close>

definition twelve_digits :: "nat \<Rightarrow> nat \<Rightarrow> int \<Rightarrow> nat" where
  "twelve_digits p d x =
     (if x \<le> 11 then round_half_even (p * 10 ^ nat (11 - x)) d
      else round_half_even p (d * 10 ^ nat (x - 11)))"

text \<open>The layout of the twelve digits \<open>ds\<close> with decimal exponent \<open>x\<close>.\<close>

definition format_g :: "string \<Rightarrow> string \<Rightarrow> int \<Rightarrow> string" where
  "format_g sign ds x =
     (if x < - 4 \<or> 12 \<le> x then
        sign @ [hd ds]
          @ (if strip_zeros (tl ds) = [] then [] else CHR ''.'' # strip_zeros (tl ds))
          @ ''e'' @ (if x < 0 then ''-'' else ''+'')
          @ (if \<bar>x\<bar> < 10 then ''0'' else []) @ nat_str (nat \<bar>x\<bar>)
      else if 0 \<le> x then
        sign @ take (nat x + 1) ds @ ''.''
          @ (if strip_zeros (drop (nat x + 1) ds) = [] then ''0''
             else strip_zeros (drop (nat x + 1) ds))
      else
        sign @ ''0.'' @ replicate (nat (- x - 1)) (CHR ''0'') @ strip_zeros ds)"

text \<open>Rounding may carry into a thirteenth digit; then the exponent grows by one.\<close>

definition format_rounded :: "string \<Rightarrow> nat \<Rightarrow> int \<Rightarrow> string" where
  "format_rounded sign m x =
     (if m = 10 ^ 12 then format_g sign (nat_str (10 ^ 11)) (x + 1)
      else format_g sign (nat_str m) x)"

definition format_ratio :: "string \<Rightarrow> nat \<Rightarrow> nat \<Rightarrow> int \<Rightarrow> string" where
  "format_ratio sign p d x = format_rounded sign (twelve_digits p d x) x"

text \<open>\<open>float_str m e\<close> is \<^verbatim>\<open>str\<close> of the double \<open>m * 2 ^ e\<close>.\<close>

definition float_str :: "int \<Rightarrow> int \<Rightarrow> string" where
  "float_str m e =
     (if m = 0 then ''0.0''
      else if 0 \<le> e then
        format_ratio (if m < 0 then ''-'' else []) (nat \<bar>m\<bar> * 2 ^ nat e) 1
          (decimal_exponent (nat \<bar>m\<bar> * 2 ^ nat e) 1)
      else
        format_ratio (if m < 0 then ''-'' else []) (nat \<bar>m\<bar>) (2 ^ nat (- e))
          (decimal_exponent (nat \<bar>m\<bar>) (2 ^ nat (- e))))"

fun py_str :: "pyval \<Rightarrow> string" where
  "py_str (PyInt i) = int_str i"
| "py_str (PyFloat m e) = float_str m e"
| "py_str (PyStr s) = s"
| "py_str (PyObj s) = s"

subsection \<open>String methods: \<^verbatim>\<open>split\<close>, \<^verbatim>\<open>strip\<close>, \<^verbatim>\<open>join\<close>, \<^verbatim>\<open>os.path.basename\<close>\<close>

text \<open>\<^verbatim>\<open>s.split(c)\<close>: one more piece than there are separators; empty pieces are kept.\<close>

fun split :: "char \<Rightarrow> string \<Rightarrow> string list" where
  "split c [] = [[]]"
| "split c (x # xs) =
     (case split c xs of
        [] \<Rightarrow> [[x]]
      | w # ws \<Rightarrow> if x = c then [] # w # ws else (x # w) # ws)"

definition is_space :: "char \<Rightarrow> bool" where
  "is_space c = (c \<in> set [CHR '' '', CHR 0x09, CHR 0x0A, CHR 0x0B, CHR 0x0C, CHR 0x0D])"

definition strip :: "string \<Rightarrow> string" where
  "strip s = rev (dropWhile is_space (rev (dropWhile is_space s)))"

fun join :: "string \<Rightarrow> string list \<Rightarrow> string" where
  "join sep [] = []"
| "join sep [x] = x"
| "join sep (x # y # ys) = x @ sep @ join sep (y # ys)"

definition basename :: "string \<Rightarrow> string" where
  "basename p = rev (takeWhile (\<lambda>c. c \<noteq> CHR ''/'') (rev p))"

subsection \<open>Errors, events and the environment\<close>

text \<open>
  \<open>EnvironmentError tool rc\<close> is \<^verbatim>\<open>EnvironmentError(errno.ENODATA, tool, errmsg)\<close>, whose
  message is formatted from the return code \<open>rc\<close>.
\<close>

datatype error =
    KeyError string
  | TypeError string
  | IndexError
  | AttributeError string
  | ValueError string
  | EnvironmentError string int

text \<open>
  Events, in the order they happen: \<open>OpenW f\<close> is \<^verbatim>\<open>open(f, 'w')\<close> (the file is created or
  truncated), \<open>WriteF f text\<close> the \<^verbatim>\<open>f.write(text)\<close> that follows it, \<open>RunSolver\<close> and
  \<open>RunGeometry\<close> the \<^verbatim>\<open>call(...)\<close> of \<^verbatim>\<open>run_apbs\<close> and of \<^verbatim>\<open>run_drawmembrane\<close> with the
  command line, and \<open>Warn d c\<close> the \<^verbatim>\<open>warnings.warn(wmsg)\<close> of \<^verbatim>\<open>BaseMem.__init__\<close>, whose
  message is formatted from the geometry tool's path \<open>d\<close> and the configuration file name
  \<open>c\<close>. Calls of \<^verbatim>\<open>logger\<close> only repeat these and are left out.
\<close>

datatype event =
    OpenW string
  | WriteF string string
  | RunSolver "string list"
  | RunGeometry "string list"
  | Warn string string

type_synonym trace = "event list"

text \<open>
  A template is a text with \<^verbatim>\<open>%(name)s\<close> slots. The four template files are not part of
  the sources at hand, so their contents are parameters of the model.
\<close>

datatype piece = Lit string | Slot string

type_synonym template = "piece list"

text \<open>
  The environment: the two executables and the configuration file name of the
  \<^verbatim>\<open>config\<close> module, the four template files read at import time, and the behaviour of the
  external programs: \<open>call env tr cmdline\<close> is the exit code of the process spawned
  with \<open>cmdline\<close> after the events \<open>tr\<close>.
\<close>

record env =
  APBS :: string
  DRAWMEMBRANE :: string
  CONFIGNAME :: string
  dummy_in :: template
  solvation_in :: template
  mdummy_in :: template
  mplaceion_in :: template
  call :: "trace \<Rightarrow> string list \<Rightarrow> int"

definition TEMPLATES :: "env \<Rightarrow> (string \<times> template) list" where
  "TEMPLATES env =
     [(''dummy'', dummy_in env),
      (''solvation'', solvation_in env),
      (''born_dummy'', mdummy_in env),
      (''born_run'', mplaceion_in env)]"

text \<open>\<^verbatim>\<open>template % vardict\<close>: the first slot missing from the dictionary raises KeyError.\<close>

fun render :: "template \<Rightarrow> (string \<rightharpoonup> pyval) \<Rightarrow> error + string" where
  "render [] d = Inr []"
| "render (Lit s # ps) d =
     (case render ps d of Inl e \<Rightarrow> Inl e | Inr t \<Rightarrow> Inr (s @ t))"
| "render (Slot k # ps) d =
     (case d k of
        None \<Rightarrow> Inl (KeyError k)
      | Some v \<Rightarrow> (case render ps d of Inl e \<Rightarrow> Inl e | Inr t \<Rightarrow> Inr (py_str v @ t)))"

subsection \<open>Results and sequencing\<close>

text \<open>
  A method takes the trace so far and returns its result, an error or a value, with the
  trace extended by its effects. \<open>bind_io\<close> is the semicolon: the second statement runs
  only if the first one did not raise.
\<close>

type_synonym 'a io = "trace \<Rightarrow> (error + 'a) \<times> trace"

definition bind_io :: "'a io \<Rightarrow> ('a \<Rightarrow> 'b io) \<Rightarrow> 'b io" where
  "bind_io m f tr = (case m tr of (Inl e, tr') \<Rightarrow> (Inl e, tr') | (Inr x, tr') \<Rightarrow> f x tr')"

definition return_io :: "'a \<Rightarrow> 'a io" where
  "return_io x tr = (Inr x, tr)"

subsection \<open>\<^verbatim>\<open>class BaseMem\<close>\<close>

text \<open>
  An instance: \<open>dict\<close> is \<^verbatim>\<open>self.__dict__\<close> for the attributes that hold numbers and
  strings, \<open>vars\<close> is \<^verbatim>\<open>self.vars\<close> (stage to comma-separated slot list) and \<open>filenames\<close> is
  \<^verbatim>\<open>self.filenames\<close> (stage to input file name). The class attributes \<^verbatim>\<open>drawmembrane\<close> and
  \<^verbatim>\<open>apbs\<close> are the environment's \<open>DRAWMEMBRANE\<close> and \<open>APBS\<close>.
\<close>

record BaseMem =
  dict :: "string \<rightharpoonup> pyval"
  vars :: "(string \<times> string) list"
  filenames :: "(string \<times> string) list"

text \<open>Keyword arguments of a constructor: \<open>pop kw k d\<close> is \<^verbatim>\<open>kwargs.pop(k, d)\<close>.\<close>

type_synonym kwargs = "(string \<times> pyval) list"

definition pop :: "kwargs \<Rightarrow> string \<Rightarrow> pyval \<Rightarrow> pyval" where
  "pop kw k d = (case map_of kw k of None \<Rightarrow> d | Some v \<Rightarrow> v)"

definition popped :: "string list \<Rightarrow> kwargs \<Rightarrow> kwargs" where
  "popped ks kw = filter (\<lambda>(k, v). k \<notin> set ks) kw"

text \<open>
  \<^verbatim>\<open>object.__init__\<close>, the end of the \<^verbatim>\<open>super\<close> chain: since Python 2.6 it raises TypeError
  when arguments are left over.
\<close>

definition object_init :: "pyval list \<Rightarrow> kwargs \<Rightarrow> error + unit" where
  "object_init args kw =
     (if args = [] \<and> kw = [] then Inr ()
      else Inl (TypeError ''object.__init__() takes no parameters''))"

text \<open>
  \<^verbatim>\<open>BaseMem.__init__\<close>. \<open>BaseMem_attrs kw d\<close> is \<^verbatim>\<open>__dict__\<close> after the twelve assignments
  \<^verbatim>\<open>self.zmem = kwargs.pop('zmem', 0.0)\<close> ... \<^verbatim>\<open>self.conc = kwargs.pop('conc', 0.1)\<close>, and
  \<open>BaseMem_keywords\<close> are the keywords they pop. The doubles \<open>298.15\<close> and \<open>0.1\<close> are
  \<open>2622555134571315 / 2 ^ 43\<close> and \<open>3602879701896397 / 2 ^ 55\<close>.
\<close>

definition BaseMem_attrs :: "kwargs \<Rightarrow> (string \<rightharpoonup> pyval) \<Rightarrow> (string \<rightharpoonup> pyval)" where
  "BaseMem_attrs kw d = d
     (''zmem'' \<mapsto> pop kw ''zmem'' (PyFloat 0 0),
      ''lmem'' \<mapsto> pop kw ''lmem'' (PyFloat 40 0),
      ''Vmem'' \<mapsto> pop kw ''Vmem'' (PyFloat 0 0),
      ''mdie'' \<mapsto> pop kw ''mdie'' (PyFloat 2 0),
      ''sdie'' \<mapsto> pop kw ''sdie'' (PyFloat 80 0),
      ''pdie'' \<mapsto> pop kw ''pdie'' (PyFloat 10 0),
      ''hdie'' \<mapsto> pop kw ''headgroup_die'' (PyFloat 20 0),
      ''lhgp'' \<mapsto> pop kw ''headgroup_l'' (PyFloat 0 0),
      ''Rtop'' \<mapsto> pop kw ''Rtop'' (PyInt 0),
      ''Rbot'' \<mapsto> pop kw ''Rbot'' (PyInt 0),
      ''temperature'' \<mapsto> pop kw ''temp'' (PyFloat 2622555134571315 (- 43)),
      ''conc'' \<mapsto> pop kw ''conc'' (PyFloat 3602879701896397 (- 55)))"

definition BaseMem_keywords :: "string list" where
  "BaseMem_keywords =
     [''zmem'', ''lmem'', ''Vmem'', ''mdie'', ''sdie'', ''pdie'',
      ''headgroup_die'', ''headgroup_l'', ''Rtop'', ''Rbot'', ''temp'', ''conc'']"

definition BaseMem_init ::
  "env \<Rightarrow> pyval list \<Rightarrow> kwargs \<Rightarrow> 'a BaseMem_scheme \<Rightarrow> ('a BaseMem_scheme) io" where
  "BaseMem_init env args kw self tr =
     (let self1 = self\<lparr>dict := BaseMem_attrs kw (dict self)\<rparr>;
          kw1 = popped BaseMem_keywords kw;
          tr1 = (if basename (DRAWMEMBRANE env) \<noteq> ''draw_membrane2a''
                 then tr @ [Warn (DRAWMEMBRANE env) (CONFIGNAME env)] else tr)
      in case object_init args kw1 of
           Inl e \<Rightarrow> (Inl e, tr1)
         | Inr u \<Rightarrow> (Inr self1, tr1))"

text \<open>
  \<^verbatim>\<open>get_var_dict\<close>: the generator looks up \<^verbatim>\<open>k.strip()\<close> for every piece \<open>k\<close> of the slot
  list, from left to right, and stores the value under \<open>k\<close>.
\<close>

fun build_dict ::
  "(string \<rightharpoonup> pyval) \<Rightarrow> (string \<rightharpoonup> pyval) \<Rightarrow> string list \<Rightarrow> error + (string \<rightharpoonup> pyval)" where
  "build_dict d acc [] = Inr acc"
| "build_dict d acc (k # ks) =
     (case d (strip k) of
        None \<Rightarrow> Inl (KeyError (strip k))
      | Some v \<Rightarrow> build_dict d (acc(k \<mapsto> v)) ks)"

definition get_var_dict :: "'a BaseMem_scheme \<Rightarrow> string \<Rightarrow> error + (string \<rightharpoonup> pyval)" where
  "get_var_dict self stage =
     (case map_of (vars self) stage of
        None \<Rightarrow> Inl (KeyError stage)
      | Some slots \<Rightarrow> build_dict (dict self) Map.empty (split (CHR '','') slots))"

definition vec2str :: "pyval list \<Rightarrow> string" where
  "vec2str vec = join '' '' (map py_str vec)"

definition infile :: "'a BaseMem_scheme \<Rightarrow> string \<Rightarrow> error + string" where
  "infile self stage =
     (case map_of (filenames self) stage of
        None \<Rightarrow> Inl (KeyError stage)
      | Some f \<Rightarrow> Inr f)"

definition outfile :: "'a BaseMem_scheme \<Rightarrow> string \<Rightarrow> error + string" where
  "outfile self stage =
     (case dict self ''suffix'' of
        None \<Rightarrow> Inl (AttributeError ''suffix'')
      | Some s \<Rightarrow> Inr (stage @ py_str s @ ''.out''))"

text \<open>
  \<^verbatim>\<open>write\<close> (here \<open>write_stage\<close>): the slot dictionary is built and the file name looked up before the file is
  opened; the template is filled in after it is opened.
\<close>

definition write_stage :: "env \<Rightarrow> 'a BaseMem_scheme \<Rightarrow> string \<Rightarrow> (string \<rightharpoonup> pyval) \<Rightarrow> string io" where
  "write_stage env self stage kw tr =
     (case get_var_dict self stage of
        Inl e \<Rightarrow> (Inl e, tr)
      | Inr vardict \<Rightarrow>
          (case infile self stage of
             Inl e \<Rightarrow> (Inl e, tr)
           | Inr f \<Rightarrow>
               (case map_of (TEMPLATES env) stage of
                  None \<Rightarrow> (Inl (KeyError stage), tr @ [OpenW f])
                | Some t \<Rightarrow>
                    (case render t (vardict ++ kw) of
                       Inl e \<Rightarrow> (Inl e, tr @ [OpenW f])
                     | Inr text \<Rightarrow> (Inr f, tr @ [OpenW f, WriteF f text])))))"

definition run_apbs :: "env \<Rightarrow> 'a BaseMem_scheme \<Rightarrow> string \<Rightarrow> int io" where
  "run_apbs env self stage tr =
     (case outfile self stage of
        Inl e \<Rightarrow> (Inl e, tr)
      | Inr out \<Rightarrow>
          (case infile self stage of
             Inl e \<Rightarrow> (Inl e, tr)
           | Inr inp \<Rightarrow>
               (let cmdline = [APBS env, ''--output-file='' @ out, inp];
                    rc = call env tr cmdline
                in if rc \<noteq> 0
                   then (Inl (EnvironmentError (APBS env) rc), tr @ [RunSolver cmdline])
                   else (Inr rc, tr @ [RunSolver cmdline]))))"

text \<open>\<open>lookup_all v ks\<close>: the list \<^verbatim>\<open>[v[k] for k in ks]\<close>; the first missing key raises.\<close>

fun lookup_all :: "(string \<rightharpoonup> pyval) \<Rightarrow> string list \<Rightarrow> error + pyval list" where
  "lookup_all v [] = Inr []"
| "lookup_all v (k # ks) =
     (case v k of
        None \<Rightarrow> Inl (KeyError k)
      | Some x \<Rightarrow> (case lookup_all v ks of Inl e \<Rightarrow> Inl e | Inr xs \<Rightarrow> Inr (x # xs)))"

text \<open>
  \<^verbatim>\<open>run_drawmembrane\<close>. The keyword \<^verbatim>\<open>stage\<close> is used as a key of \<^verbatim>\<open>self.vars\<close>, so a
  value that is not a string is a missing key. The default of \<^verbatim>\<open>infix\<close>, \<^verbatim>\<open>self.suffix\<close>, is
  read even when the keyword is given. The infix goes into the command line as it is,
  and \<^verbatim>\<open>" ".join(cmdline)\<close> raises TypeError when it is not a string.
\<close>

definition run_drawmembrane :: "env \<Rightarrow> 'a BaseMem_scheme \<Rightarrow> (string \<rightharpoonup> pyval) \<Rightarrow> int io" where
  "run_drawmembrane env self kw tr =
     (case (case kw ''stage'' of
              None \<Rightarrow> get_var_dict self ''drawmembrane2''
            | Some (PyStr stage) \<Rightarrow> get_var_dict self stage
            | Some other \<Rightarrow> Inl (KeyError (py_str other))) of
        Inl e \<Rightarrow> (Inl e, tr)
      | Inr v \<Rightarrow>
          (case dict self ''suffix'' of
             None \<Rightarrow> (Inl (AttributeError ''suffix''), tr)
           | Some suffix \<Rightarrow>
               (let infx = (case kw ''infix'' of None \<Rightarrow> suffix | Some i \<Rightarrow> i);
                    v1 = v ++ kw(''stage'' := None, ''infix'' := None)
                in case lookup_all v1 [''zmem'', ''lmem'', ''pdie'', ''Vmem'', ''conc'', ''Rtop'', ''Rbot''] of
                     Inl e \<Rightarrow> (Inl e, tr)
                   | Inr xs \<Rightarrow>
                       (case infx of
                          PyStr i \<Rightarrow>
                            (let cmdline = [DRAWMEMBRANE env, i] @ map py_str xs;
                                 rc = call env tr cmdline
                             in if rc \<noteq> 0
                                then (Inl (EnvironmentError (DRAWMEMBRANE env) rc),
                                      tr @ [RunGeometry cmdline])
                                else (Inr rc, tr @ [RunGeometry cmdline]))
                        | other \<Rightarrow> (Inl (TypeError ''sequence item 1: expected string''), tr)))))"

subsection \<open>\<^verbatim>\<open>class APBSmem(BaseMem)\<close>\<close>

text \<open>
  \<^verbatim>\<open>APBSmem(pqr, suffix[, kwargs])\<close>. \<open>args\<close> are the positional arguments; \<open>dime_kw\<close> and
  \<open>glen_kw\<close> are the keywords \<^verbatim>\<open>dime\<close> and \<^verbatim>\<open>glen\<close> (\<open>None\<close> when not given), sequences of
  numbers; \<open>kw\<close> holds the remaining keywords.
\<close>

record APBSmem = BaseMem +
  dime :: "pyval list"
  glen :: "pyval list"

text \<open>The dictionary assigned to \<^verbatim>\<open>self.vars\<close>, as it is written in the source.\<close>

definition APBSmem_vars :: "(string \<times> string) list" where
  "APBSmem_vars =
     [(''dummy'', ''pqr,suffix,pdie,sdie,conc,temperature,DIME_XYZ,GLEN_XYZ''),
      (''solvation'', ''pqr,suffix,pdie,sdie,conc,temperature,,DIME_XYZ,GLEN_XYZ''),
      (''drawmembrane2'', ''zmem,lmem,pdie,Vmem,conc,Rtop,Rbot,suffix'')]"

definition APBSmem_init ::
  "env \<Rightarrow> pyval list \<Rightarrow> pyval list option \<Rightarrow> pyval list option \<Rightarrow> kwargs \<Rightarrow> APBSmem io" where
  "APBSmem_init env args dime_kw glen_kw kw tr =
     (case args of
        pqr # suffix # rest \<Rightarrow>
          (let dime0 = (case dime_kw of None \<Rightarrow> [PyInt 97, PyInt 97, PyInt 97] | Some d \<Rightarrow> d);
               glen0 = (case glen_kw of None \<Rightarrow> [PyInt 250, PyInt 250, PyInt 250] | Some g \<Rightarrow> g);
               self = \<lparr>dict = [''pqr'' \<mapsto> pqr, ''suffix'' \<mapsto> suffix,
                               ''DIME_XYZ'' \<mapsto> PyStr (vec2str dime0),
                               ''GLEN_XYZ'' \<mapsto> PyStr (vec2str glen0)],
                       vars = APBSmem_vars,
                       filenames =
                         [(''dummy'', ''dummy'' @ py_str suffix @ ''.in''),
                          (''solvation'', ''solvation'' @ py_str suffix @ ''.in'')],
                       dime = dime0, glen = glen0\<rparr>
           in BaseMem_init env rest kw self tr)
      | _ \<Rightarrow> (Inl IndexError, tr))"

definition APBSmem_generate :: "env \<Rightarrow> APBSmem \<Rightarrow> unit io" where
  "APBSmem_generate env self =
     bind_io (write_stage env self ''dummy'' Map.empty) (\<lambda>_.
     bind_io (run_apbs env self ''dummy'') (\<lambda>_.
     bind_io (run_drawmembrane env self Map.empty) (\<lambda>_.
     bind_io (write_stage env self ''solvation'' Map.empty) (\<lambda>_.
     return_io ()))))"

subsection \<open>\<^verbatim>\<open>class BornAPBSmem(BaseMem)\<close>\<close>

text \<open>
  A numpy array is its shape and its elements in row-major order; in a well-formed
  array the number of elements is the product of the shape. The constructor's \<open>dime_kw\<close>
  and \<open>glen_kw\<close> are the arrays that \<^verbatim>\<open>numpy.array\<close> makes of the keywords \<^verbatim>\<open>dime\<close> and
  \<^verbatim>\<open>glen\<close>.
\<close>

record ndarray =
  shape :: "nat list"
  data :: "pyval list"

definition wf_ndarray :: "ndarray \<Rightarrow> bool" where
  "wf_ndarray a = (length (data a) = prod_list (shape a))"

text \<open>\<^verbatim>\<open>numpy.concatenate\<close> of one-dimensional arrays, and \<^verbatim>\<open>reshape\<close>.\<close>

definition concatenate :: "ndarray list \<Rightarrow> ndarray" where
  "concatenate as = \<lparr>shape = [length (concat (map data as))], data = concat (map data as)\<rparr>"

definition reshape :: "ndarray \<Rightarrow> nat list \<Rightarrow> error + ndarray" where
  "reshape a new =
     (if prod_list new = length (data a) then Inr \<lparr>shape = new, data = data a\<rparr>
      else Inl (ValueError ''total size of new array must be unchanged''))"

text \<open>Iterating over an array yields its sub-arrays along the first axis.\<close>

definition iter :: "ndarray \<Rightarrow> ndarray list" where
  "iter a =
     (case shape a of
        [] \<Rightarrow> []
      | n # rest \<Rightarrow>
          map (\<lambda>i. \<lparr>shape = rest,
                     data = take (prod_list rest) (drop (i * prod_list rest) (data a))\<rparr>)
              [0..<n])"

record BornAPBSmem = BaseMem +
  suffices :: "string list"
  infices :: "string list"
  dime :: ndarray
  glen :: ndarray

text \<open>The loop over \<^verbatim>\<open>izip(self.suffices, self.dime, self.glen)\<close> that fills \<open>d\<close>.\<close>

fun generate_names ::
  "(string \<rightharpoonup> pyval) \<Rightarrow> (string \<times> ndarray \<times> ndarray) list \<Rightarrow> (string \<rightharpoonup> pyval)" where
  "generate_names d [] = d"
| "generate_names d ((suffix, drow, grow) # rest) =
     generate_names
       (d(''DIME_XYZ_'' @ suffix \<mapsto> PyStr (vec2str (data drow)),
          ''GLEN_XYZ_'' @ suffix \<mapsto> PyStr (vec2str (data grow))))
       rest"

text \<open>The dictionary assigned to \<^verbatim>\<open>self.vars\<close>; the source writes each slot list as
  adjacent string literals.\<close>

definition BornAPBSmem_vars :: "(string \<times> string) list" where
  "BornAPBSmem_vars =
     [(''born_dummy'',
       ''protein_pqr,ion_pqr,complex_pqr,''
         @ ''pdie,sdie,conc,temperature,''
         @ ''DIME_XYZ_L,DIME_XYZ_M,DIME_XYZ_S,''
         @ ''GLEN_XYZ_L,GLEN_XYZ_M,GLEN_XYZ_S''),
      (''born_run'',
       ''protein_pqr,ion_pqr,complex_pqr,''
         @ ''pdie,sdie,conc,temperature,comment,''
         @ ''DIME_XYZ_L,DIME_XYZ_M,DIME_XYZ_S,''
         @ ''GLEN_XYZ_L,GLEN_XYZ_M,GLEN_XYZ_S''),
      (''drawmembrane2'', ''zmem,lmem,pdie,Vmem,conc,Rtop,Rbot'')]"

definition BornAPBSmem_init ::
  "env \<Rightarrow> pyval list \<Rightarrow> ndarray option \<Rightarrow> ndarray option \<Rightarrow> kwargs \<Rightarrow> BornAPBSmem io" where
  "BornAPBSmem_init env args dime_kw glen_kw kw tr =
     (case args of
        protein_pqr # ion_pqr # complex_pqr # rest \<Rightarrow>
          (let suffices0 = [''L'', ''M'', ''S''];
               infices0 = [''_prot_L'', ''_prot_M'', ''_prot_S'', ''_cpx_L'', ''_cpx_M'', ''_cpx_S''];
               comment = pop kw ''comment'' (PyStr ''BORNPROFILE'');
               dime0 = (case dime_kw of
                          None \<Rightarrow> \<lparr>shape = [3], data = [PyInt 97, PyInt 97, PyInt 97]\<rparr>
                        | Some d \<Rightarrow> d)
           in if \<not> (shape dime0 = [3] \<or> shape dime0 = [3, 3])
              then (Inl (TypeError ''dime must be a triplet of values or a triplet of such triplets''), tr)
              else
                (case (if length (shape dime0) = 1
                       then reshape (concatenate [dime0, dime0, dime0]) [3, 3]
                       else Inr dime0) of
                   Inl e \<Rightarrow> (Inl e, tr)
                 | Inr dime1 \<Rightarrow>
                     (let glen0 = (case glen_kw of
                                     None \<Rightarrow> \<lparr>shape = [3, 3],
                                              data = [PyInt 250, PyInt 250, PyInt 250,
                                                      PyInt 100, PyInt 100, PyInt 100,
                                                      PyInt 50, PyInt 50, PyInt 50]\<rparr>
                                   | Some g \<Rightarrow> g)
                      in if \<not> shape glen0 = [3, 3]
                         then (Inl (TypeError ''glen must be a triplet of triplets.''), tr)
                         else
                           (let d = generate_names Map.empty
                                      (zip suffices0 (zip (iter dime1) (iter glen0)));
                                self = \<lparr>dict = [''protein_pqr'' \<mapsto> protein_pqr,
                                                ''ion_pqr'' \<mapsto> ion_pqr,
                                                ''complex_pqr'' \<mapsto> complex_pqr,
                                                ''suffix'' \<mapsto> PyStr [],
                                                ''comment'' \<mapsto> comment] ++ d,
                                        vars = BornAPBSmem_vars,
                                        filenames =
                                          [(''born_dummy'', ''mem_dummy.in''),
                                           (''born_run'', ''mem_placeion.in'')],
                                        suffices = suffices0, infices = infices0,
                                        dime = dime1, glen = glen0\<rparr>
                            in BaseMem_init env rest (popped [''comment''] kw) self tr))))
      | _ \<Rightarrow> (Inl IndexError, tr))"

text \<open>The loop \<^verbatim>\<open>for infix in self.infices: self.run_drawmembrane(infix=infix)\<close>.\<close>

fun run_infices :: "env \<Rightarrow> 'a BaseMem_scheme \<Rightarrow> string list \<Rightarrow> unit io" where
  "run_infices env self [] = return_io ()"
| "run_infices env self (i # rest) =
     bind_io (run_drawmembrane env self [''infix'' \<mapsto> PyStr i]) (\<lambda>_.
     run_infices env self rest)"

definition BornAPBSmem_generate :: "env \<Rightarrow> BornAPBSmem \<Rightarrow> unit io" where
  "BornAPBSmem_generate env self =
     bind_io (write_stage env self ''born_dummy'' Map.empty) (\<lambda>_.
     bind_io (run_apbs env self ''born_dummy'') (\<lambda>_.
     bind_io (run_infices env self (infices self)) (\<lambda>_.
     bind_io (write_stage env self ''born_run'' Map.empty) (\<lambda>_.
     return_io ()))))"

subsection \<open>Reading traces and templates\<close>

text \<open>The slots a template names, in order of appearance.\<close>

fun slots :: "template \<Rightarrow> string list" where
  "slots [] = []"
| "slots (Lit s # ps) = slots ps"
| "slots (Slot k # ps) = k # slots ps"

text \<open>The pieces of the slot list that \<^verbatim>\<open>self.vars\<close> declares for a stage.\<close>

definition declared :: "'a BaseMem_scheme \<Rightarrow> string \<Rightarrow> string list" where
  "declared self stage =
     (case map_of (vars self) stage of None \<Rightarrow> [] | Some s \<Rightarrow> split (CHR '','') s)"

fun is_solver :: "event \<Rightarrow> bool" where
  "is_solver (RunSolver c) = True"
| "is_solver e = False"

fun is_geometry :: "event \<Rightarrow> bool" where
  "is_geometry (RunGeometry c) = True"
| "is_geometry e = False"

text \<open>\<open>touches f e\<close>: the event \<open>e\<close> creates, truncates or writes the file \<open>f\<close>.\<close>

fun touches :: "string \<Rightarrow> event \<Rightarrow> bool" where
  "touches f (OpenW g) = (f = g)"
| "touches f (WriteF g t) = (f = g)"
| "touches f e = False"

subsection \<open>A set-up with stub programs\<close>

text \<open>
  The calls \<^verbatim>\<open>APBSmem(...).generate()\<close> and \<^verbatim>\<open>BornAPBSmem(...).generate()\<close>: construction,
  then the pipeline on the new instance.
\<close>

definition APBSmem_setup ::
  "env \<Rightarrow> pyval list \<Rightarrow> pyval list option \<Rightarrow> pyval list option \<Rightarrow> kwargs \<Rightarrow> unit io" where
  "APBSmem_setup env args dime_kw glen_kw kw =
     bind_io (APBSmem_init env args dime_kw glen_kw kw) (APBSmem_generate env)"

definition BornAPBSmem_setup ::
  "env \<Rightarrow> pyval list \<Rightarrow> ndarray option \<Rightarrow> ndarray option \<Rightarrow> kwargs \<Rightarrow> unit io" where
  "BornAPBSmem_setup env args dime_kw glen_kw kw =
     bind_io (BornAPBSmem_init env args dime_kw glen_kw kw) (BornAPBSmem_generate env)"

text \<open>
  An environment for examples: a solver stub that always exits with \<open>s\<close>, a geometry
  tool stub that always exits with \<open>g\<close>, and four short templates that use declared slots
  only.
\<close>

definition stub_env :: "int \<Rightarrow> int \<Rightarrow> env" where
  "stub_env s g =
     \<lparr>APBS = ''apbs'',
      DRAWMEMBRANE = ''/usr/local/bin/draw_membrane2a'',
      CONFIGNAME = ''~/.bornprofiler.cfg'',
      dummy_in = [Lit ''mol pqr '', Slot ''pqr'', Lit '' dime '', Slot ''DIME_XYZ''],
      solvation_in = [Lit ''mol pqr '', Slot ''pqr'', Lit '' glen '', Slot ''GLEN_XYZ''],
      mdummy_in = [Lit ''mol pqr '', Slot ''protein_pqr'', Lit '' dime '', Slot ''DIME_XYZ_L''],
      mplaceion_in = [Lit ''# '', Slot ''comment'', Lit '' mol pqr '', Slot ''complex_pqr''],
      call = (\<lambda>tr cmdline. if take 1 cmdline = [''apbs''] then s else g)\<rparr>"

section \<open>Properties\<close>

subsection \<open>Sequencing, slot dictionaries and rendering\<close>

lemma bind_io_Inl: "m tr = (Inl e, tr') \<Longrightarrow> bind_io m f tr = (Inl e, tr')"
  by (simp add: bind_io_def)

lemma bind_io_Inr: "m tr = (Inr x, tr') \<Longrightarrow> bind_io m f tr = f x tr'"
  by (simp add: bind_io_def)

lemma build_dict_missing:
  "k \<in> set ks \<Longrightarrow> d (strip k) = None \<Longrightarrow>
   \<exists>k'\<in>set ks. d (strip k') = None \<and> build_dict d acc ks = Inl (KeyError (strip k'))"
proof (induction ks arbitrary: acc)
  case Nil
  then show ?case by simp
next
  case (Cons a ks)
  show ?case
  proof (cases "d (strip a)")
    case None
    then show ?thesis by auto
  next
    case (Some v)
    with Cons.prems have "k \<in> set ks" by auto
    from Cons.IH [OF this Cons.prems(2), of "acc(a \<mapsto> v)"]
    obtain k' where "k' \<in> set ks" "d (strip k') = None"
      "build_dict d (acc(a \<mapsto> v)) ks = Inl (KeyError (strip k'))"
      by blast
    with Some show ?thesis by (intro bexI [of _ k']) simp_all
  qed
qed

lemma build_dict_present:
  "\<forall>k\<in>set ks. d (strip k) \<noteq> None \<Longrightarrow>
   build_dict d acc ks = Inr (\<lambda>k. if k \<in> set ks then d (strip k) else acc k)"
proof (induction ks arbitrary: acc)
  case Nil
  then show ?case by simp
next
  case (Cons a ks)
  then obtain v where v: "d (strip a) = Some v" by auto
  have "build_dict d (acc(a \<mapsto> v)) ks = Inr (\<lambda>k. if k \<in> set ks then d (strip k) else (acc(a \<mapsto> v)) k)"
    using Cons by simp
  then show ?case using v by (auto simp: fun_eq_iff)
qed

lemma write_stage_missing_slot:
  assumes "map_of (vars self) stage = Some sl"
    and "k \<in> set (split (CHR '','') sl)"
    and "dict self (strip k) = None"
  shows "\<exists>k'\<in>set (split (CHR '','') sl). dict self (strip k') = None \<and>
           write_stage env self stage kw tr = (Inl (KeyError (strip k')), tr)"
proof -
  from build_dict_missing [of k "split (CHR '','') sl" "dict self" Map.empty, OF assms(2,3)]
  obtain k' where "k' \<in> set (split (CHR '','') sl)" "dict self (strip k') = None"
    "build_dict (dict self) Map.empty (split (CHR '','') sl) = Inl (KeyError (strip k'))"
    by blast
  then show ?thesis using assms(1) by (auto simp: write_stage_def get_var_dict_def)
qed

lemma BaseMem_init_trace:
  "snd (BaseMem_init env args kw self tr) =
     (if basename (DRAWMEMBRANE env) \<noteq> ''draw_membrane2a''
      then tr @ [Warn (DRAWMEMBRANE env) (CONFIGNAME env)] else tr)"
  by (simp add: BaseMem_init_def Let_def split: sum.splits)

lemma BaseMem_init_result:
  "fst (BaseMem_init env args kw self tr) =
     (if args = [] \<and> popped BaseMem_keywords kw = []
      then Inr (self\<lparr>dict := BaseMem_attrs kw (dict self)\<rparr>)
      else Inl (TypeError ''object.__init__() takes no parameters''))"
  by (simp add: BaseMem_init_def Let_def object_init_def split: sum.splits)

lemma APBSmem_init_cases:
  "APBSmem_init env args dime_kw glen_kw kw tr =
     (if length args < 2 then (Inl IndexError, tr)
      else BaseMem_init env (drop 2 args) kw
             \<lparr>dict = [''pqr'' \<mapsto> args ! 0, ''suffix'' \<mapsto> args ! 1,
                     ''DIME_XYZ'' \<mapsto> PyStr (vec2str (case dime_kw of None \<Rightarrow> [PyInt 97, PyInt 97, PyInt 97] | Some d \<Rightarrow> d)),
                     ''GLEN_XYZ'' \<mapsto> PyStr (vec2str (case glen_kw of None \<Rightarrow> [PyInt 250, PyInt 250, PyInt 250] | Some g \<Rightarrow> g))],
              vars = APBSmem_vars,
              filenames = [(''dummy'', ''dummy'' @ py_str (args ! 1) @ ''.in''),
                           (''solvation'', ''solvation'' @ py_str (args ! 1) @ ''.in'')],
              APBSmem.dime = (case dime_kw of None \<Rightarrow> [PyInt 97, PyInt 97, PyInt 97] | Some d \<Rightarrow> d),
              APBSmem.glen = (case glen_kw of None \<Rightarrow> [PyInt 250, PyInt 250, PyInt 250] | Some g \<Rightarrow> g)\<rparr> tr)"
  by (simp add: APBSmem_init_def Let_def split: list.splits)

lemma APBSmem_init_Inr:
  assumes "APBSmem_init env args dime_kw glen_kw kw tr = (Inr self, tr')"
  shows "dict self = BaseMem_attrs kw
           [''pqr'' \<mapsto> args ! 0, ''suffix'' \<mapsto> args ! 1,
            ''DIME_XYZ'' \<mapsto> PyStr (vec2str (APBSmem.dime self)),
            ''GLEN_XYZ'' \<mapsto> PyStr (vec2str (APBSmem.glen self))]"
    and "vars self = APBSmem_vars"
    and "filenames self = [(''dummy'', ''dummy'' @ py_str (args ! 1) @ ''.in''),
                           (''solvation'', ''solvation'' @ py_str (args ! 1) @ ''.in'')]"
    and "APBSmem.dime self = (case dime_kw of None \<Rightarrow> [PyInt 97, PyInt 97, PyInt 97] | Some d \<Rightarrow> d)"
    and "APBSmem.glen self = (case glen_kw of None \<Rightarrow> [PyInt 250, PyInt 250, PyInt 250] | Some g \<Rightarrow> g)"
    and "length args = 2"
proof -
  have len: "\<not> length args < 2"
    using assms by (auto simp: APBSmem_init_cases)
  from assms len have r: "fst (BaseMem_init env (drop 2 args) kw
             \<lparr>dict = [''pqr'' \<mapsto> args ! 0, ''suffix'' \<mapsto> args ! 1,
                     ''DIME_XYZ'' \<mapsto> PyStr (vec2str (case dime_kw of None \<Rightarrow> [PyInt 97, PyInt 97, PyInt 97] | Some d \<Rightarrow> d)),
                     ''GLEN_XYZ'' \<mapsto> PyStr (vec2str (case glen_kw of None \<Rightarrow> [PyInt 250, PyInt 250, PyInt 250] | Some g \<Rightarrow> g))],
              vars = APBSmem_vars,
              filenames = [(''dummy'', ''dummy'' @ py_str (args ! 1) @ ''.in''),
                           (''solvation'', ''solvation'' @ py_str (args ! 1) @ ''.in'')],
              APBSmem.dime = (case dime_kw of None \<Rightarrow> [PyInt 97, PyInt 97, PyInt 97] | Some d \<Rightarrow> d),
              APBSmem.glen = (case glen_kw of None \<Rightarrow> [PyInt 250, PyInt 250, PyInt 250] | Some g \<Rightarrow> g)\<rparr> tr) = Inr self"
    by (simp add: APBSmem_init_cases)
  then have d2: "drop 2 args = []" and self: "self = \<lparr>dict = BaseMem_attrs kw [''pqr'' \<mapsto> args ! 0, ''suffix'' \<mapsto> args ! 1,
                     ''DIME_XYZ'' \<mapsto> PyStr (vec2str (case dime_kw of None \<Rightarrow> [PyInt 97, PyInt 97, PyInt 97] | Some d \<Rightarrow> d)),
                     ''GLEN_XYZ'' \<mapsto> PyStr (vec2str (case glen_kw of None \<Rightarrow> [PyInt 250, PyInt 250, PyInt 250] | Some g \<Rightarrow> g))],
              vars = APBSmem_vars,
              filenames = [(''dummy'', ''dummy'' @ py_str (args ! 1) @ ''.in''),
                           (''solvation'', ''solvation'' @ py_str (args ! 1) @ ''.in'')],
              APBSmem.dime = (case dime_kw of None \<Rightarrow> [PyInt 97, PyInt 97, PyInt 97] | Some d \<Rightarrow> d),
              APBSmem.glen = (case glen_kw of None \<Rightarrow> [PyInt 250, PyInt 250, PyInt 250] | Some g \<Rightarrow> g)\<rparr>"
    by (auto simp: BaseMem_init_result split: if_splits)
  from d2 len show "length args = 2" by simp
  from self show "dict self = BaseMem_attrs kw
           [''pqr'' \<mapsto> args ! 0, ''suffix'' \<mapsto> args ! 1,
            ''DIME_XYZ'' \<mapsto> PyStr (vec2str (APBSmem.dime self)),
            ''GLEN_XYZ'' \<mapsto> PyStr (vec2str (APBSmem.glen self))]" by simp
  from self show "vars self = APBSmem_vars" by simp
  from self show "filenames self = [(''dummy'', ''dummy'' @ py_str (args ! 1) @ ''.in''),
                           (''solvation'', ''solvation'' @ py_str (args ! 1) @ ''.in'')]" by simp
  from self show "APBSmem.dime self = (case dime_kw of None \<Rightarrow> [PyInt 97, PyInt 97, PyInt 97] | Some d \<Rightarrow> d)" by simp
  from self show "APBSmem.glen self = (case glen_kw of None \<Rightarrow> [PyInt 250, PyInt 250, PyInt 250] | Some g \<Rightarrow> g)" by simp
qed

lemma BornAPBSmem_init_Inr:
  assumes "BornAPBSmem_init env args dime_kw glen_kw kw tr = (Inr self, tr')"
  shows "length args = 3"
    and "vars self = BornAPBSmem_vars"
    and "filenames self = [(''born_dummy'', ''mem_dummy.in''), (''born_run'', ''mem_placeion.in'')]"
    and "infices self = [''_prot_L'', ''_prot_M'', ''_prot_S'', ''_cpx_L'', ''_cpx_M'', ''_cpx_S'']"
    and "BornAPBSmem.glen self =
           (case glen_kw of
              None \<Rightarrow> \<lparr>shape = [3, 3],
                       data = [PyInt 250, PyInt 250, PyInt 250, PyInt 100, PyInt 100, PyInt 100,
                               PyInt 50, PyInt 50, PyInt 50]\<rparr>
            | Some g \<Rightarrow> g)"
    and "shape (BornAPBSmem.glen self) = [3, 3]"
    and "BornAPBSmem.dime self =
           (case dime_kw of
              None \<Rightarrow> \<lparr>shape = [3, 3],
                       data = [PyInt 97, PyInt 97, PyInt 97, PyInt 97, PyInt 97, PyInt 97,
                               PyInt 97, PyInt 97, PyInt 97]\<rparr>
            | Some d \<Rightarrow> if shape d = [3] then \<lparr>shape = [3, 3], data = data d @ data d @ data d\<rparr> else d)"
    and "shape (BornAPBSmem.dime self) = [3, 3]"
    and "dict self = BaseMem_attrs (popped [''comment''] kw)
           ([''protein_pqr'' \<mapsto> args ! 0, ''ion_pqr'' \<mapsto> args ! 1, ''complex_pqr'' \<mapsto> args ! 2,
             ''suffix'' \<mapsto> PyStr [], ''comment'' \<mapsto> pop kw ''comment'' (PyStr ''BORNPROFILE'')]
            ++ generate_names Map.empty
                 (zip [''L'', ''M'', ''S'']
                    (zip (iter (BornAPBSmem.dime self)) (iter (BornAPBSmem.glen self)))))"
  using assms
  by (auto simp: BornAPBSmem_init_def Let_def BaseMem_init_def object_init_def reshape_def concatenate_def
           split: list.splits if_splits sum.splits option.splits)

lemma iter_33:
  "shape a = [3, 3] \<Longrightarrow>
   iter a = [\<lparr>shape = [3], data = take 3 (data a)\<rparr>,
             \<lparr>shape = [3], data = take 3 (drop 3 (data a))\<rparr>,
             \<lparr>shape = [3], data = take 3 (drop 6 (data a))\<rparr>]"
  by (simp add: iter_def upt_rec)

lemma declared_born_dummy:
  "split (CHR '','') (''protein_pqr,ion_pqr,complex_pqr,'' @ ''pdie,sdie,conc,temperature,''
      @ ''DIME_XYZ_L,DIME_XYZ_M,DIME_XYZ_S,'' @ ''GLEN_XYZ_L,GLEN_XYZ_M,GLEN_XYZ_S'') =
   [''protein_pqr'', ''ion_pqr'', ''complex_pqr'', ''pdie'', ''sdie'', ''conc'', ''temperature'',
    ''DIME_XYZ_L'', ''DIME_XYZ_M'', ''DIME_XYZ_S'', ''GLEN_XYZ_L'', ''GLEN_XYZ_M'', ''GLEN_XYZ_S'']"
  by simp

lemma declared_born_run:
  "split (CHR '','') (''protein_pqr,ion_pqr,complex_pqr,'' @ ''pdie,sdie,conc,temperature,comment,''
      @ ''DIME_XYZ_L,DIME_XYZ_M,DIME_XYZ_S,'' @ ''GLEN_XYZ_L,GLEN_XYZ_M,GLEN_XYZ_S'') =
   [''protein_pqr'', ''ion_pqr'', ''complex_pqr'', ''pdie'', ''sdie'', ''conc'', ''temperature'',
    ''comment'', ''DIME_XYZ_L'', ''DIME_XYZ_M'', ''DIME_XYZ_S'', ''GLEN_XYZ_L'', ''GLEN_XYZ_M'',
    ''GLEN_XYZ_S'']"
  by simp

lemma declared_drawmembrane2:
  "split (CHR '','') ''zmem,lmem,pdie,Vmem,conc,Rtop,Rbot'' =
   [''zmem'', ''lmem'', ''pdie'', ''Vmem'', ''conc'', ''Rtop'', ''Rbot'']"
  "split (CHR '','') ''zmem,lmem,pdie,Vmem,conc,Rtop,Rbot,suffix'' =
   [''zmem'', ''lmem'', ''pdie'', ''Vmem'', ''conc'', ''Rtop'', ''Rbot'', ''suffix'']"
  by simp_all

lemma declared_dummy:
  "split (CHR '','') ''pqr,suffix,pdie,sdie,conc,temperature,DIME_XYZ,GLEN_XYZ'' =
   [''pqr'', ''suffix'', ''pdie'', ''sdie'', ''conc'', ''temperature'', ''DIME_XYZ'', ''GLEN_XYZ'']"
  by simp

lemma declared_solvation:
  "split (CHR '','') ''pqr,suffix,pdie,sdie,conc,temperature,,DIME_XYZ,GLEN_XYZ'' =
   [''pqr'', ''suffix'', ''pdie'', ''sdie'', ''conc'', ''temperature'', [], ''DIME_XYZ'', ''GLEN_XYZ'']"
  by simp

lemma strip_names:
  "strip ''pqr'' = ''pqr''" "strip ''suffix'' = ''suffix''" "strip ''pdie'' = ''pdie''"
  "strip ''sdie'' = ''sdie''" "strip ''conc'' = ''conc''" "strip ''temperature'' = ''temperature''"
  "strip ''DIME_XYZ'' = ''DIME_XYZ''" "strip ''GLEN_XYZ'' = ''GLEN_XYZ''" "strip [] = []"
  "strip ''zmem'' = ''zmem''" "strip ''lmem'' = ''lmem''" "strip ''Vmem'' = ''Vmem''"
  "strip ''Rtop'' = ''Rtop''" "strip ''Rbot'' = ''Rbot''"
  "strip ''protein_pqr'' = ''protein_pqr''" "strip ''ion_pqr'' = ''ion_pqr''"
  "strip ''complex_pqr'' = ''complex_pqr''" "strip ''comment'' = ''comment''"
  "strip ''DIME_XYZ_L'' = ''DIME_XYZ_L''" "strip ''DIME_XYZ_M'' = ''DIME_XYZ_M''"
  "strip ''DIME_XYZ_S'' = ''DIME_XYZ_S''" "strip ''GLEN_XYZ_L'' = ''GLEN_XYZ_L''"
  "strip ''GLEN_XYZ_M'' = ''GLEN_XYZ_M''" "strip ''GLEN_XYZ_S'' = ''GLEN_XYZ_S''"
  by (simp_all add: strip_def is_space_def)

lemma BornAPBSmem_dict:
  assumes "BornAPBSmem_init env args dime_kw glen_kw kw tr = (Inr self, tr')"
  shows "dict self ''protein_pqr'' = Some (args ! 0)"
    and "dict self ''ion_pqr'' = Some (args ! 1)"
    and "dict self ''complex_pqr'' = Some (args ! 2)"
    and "dict self ''suffix'' = Some (PyStr [])"
    and "dict self ''comment'' = Some (pop kw ''comment'' (PyStr ''BORNPROFILE''))"
    and "dict self ''DIME_XYZ_L'' = Some (PyStr (vec2str (take 3 (data (BornAPBSmem.dime self)))))"
    and "dict self ''DIME_XYZ_M'' = Some (PyStr (vec2str (take 3 (drop 3 (data (BornAPBSmem.dime self))))))"
    and "dict self ''DIME_XYZ_S'' = Some (PyStr (vec2str (take 3 (drop 6 (data (BornAPBSmem.dime self))))))"
    and "dict self ''GLEN_XYZ_L'' = Some (PyStr (vec2str (take 3 (data (BornAPBSmem.glen self)))))"
    and "dict self ''GLEN_XYZ_M'' = Some (PyStr (vec2str (take 3 (drop 3 (data (BornAPBSmem.glen self))))))"
    and "dict self ''GLEN_XYZ_S'' = Some (PyStr (vec2str (take 3 (drop 6 (data (BornAPBSmem.glen self))))))"
    and "dict self ''zmem'' = Some (pop (popped [''comment''] kw) ''zmem'' (PyFloat 0 0))"
    and "dict self ''lmem'' = Some (pop (popped [''comment''] kw) ''lmem'' (PyFloat 40 0))"
    and "dict self ''pdie'' = Some (pop (popped [''comment''] kw) ''pdie'' (PyFloat 10 0))"
    and "dict self ''Vmem'' = Some (pop (popped [''comment''] kw) ''Vmem'' (PyFloat 0 0))"
    and "dict self ''conc'' = Some (pop (popped [''comment''] kw) ''conc'' (PyFloat 3602879701896397 (- 55)))"
    and "dict self ''Rtop'' = Some (pop (popped [''comment''] kw) ''Rtop'' (PyInt 0))"
    and "dict self ''Rbot'' = Some (pop (popped [''comment''] kw) ''Rbot'' (PyInt 0))"
    and "dict self ''sdie'' = Some (pop (popped [''comment''] kw) ''sdie'' (PyFloat 80 0))"
    and "dict self ''temperature'' = Some (pop (popped [''comment''] kw) ''temp'' (PyFloat 2622555134571315 (- 43)))"
  unfolding BornAPBSmem_init_Inr(9) [OF assms]
  by (simp_all add: BaseMem_attrs_def iter_33 BornAPBSmem_init_Inr(6,8) [OF assms] map_add_def)

lemma pop_popped: "k \<notin> set ks \<Longrightarrow> pop (popped ks kw) k d = pop kw k d"
  by (induction kw) (auto simp: pop_def popped_def)

lemma render_present: "set (slots t) \<subseteq> dom d \<Longrightarrow> \<exists>text. render t d = Inr text"
proof (induction t)
  case Nil
  then show ?case by simp
next
  case (Cons p t)
  then show ?case by (cases p) auto
qed

lemma lookup_all_Inr: "lookup_all v ks = Inr xs \<longleftrightarrow> map v ks = map Some xs"
proof (induction ks arbitrary: xs)
  case Nil
  then show ?case by auto
next
  case (Cons k ks)
  show ?case
  proof (cases "v k")
    case None
    then show ?thesis by (cases xs) auto
  next
    case (Some x)
    show ?thesis
    proof (cases "lookup_all v ks")
      case (Inl e)
      with Cons.IH have "\<And>ys. map v ks \<noteq> map Some ys" by auto
      with Inl Some show ?thesis by (cases xs) auto
    next
      case (Inr ys)
      with Cons.IH [of ys] have "map v ks = map Some ys" by simp
      with Inr Some show ?thesis
        by (cases xs) (auto simp: inj_map_eq_map [OF inj_Some])
    qed
  qed
qed

lemma write_stage_events:
  "(\<exists>e. write_stage env self stage kw tr = (Inl e, tr)) \<or>
   (\<exists>e f. infile self stage = Inr f \<and>
      write_stage env self stage kw tr = (Inl e, tr @ [OpenW f])) \<or>
   (\<exists>f text. infile self stage = Inr f \<and>
      write_stage env self stage kw tr = (Inr f, tr @ [OpenW f, WriteF f text]))"
proof (cases "get_var_dict self stage")
  case (Inl e)
  then show ?thesis by (auto simp: write_stage_def)
next
  case v: (Inr v)
  show ?thesis
  proof (cases "infile self stage")
    case (Inl e)
    with v show ?thesis by (auto simp: write_stage_def)
  next
    case f: (Inr f)
    show ?thesis
    proof (cases "map_of (TEMPLATES env) stage")
      case None
      with v f show ?thesis by (auto simp: write_stage_def)
    next
      case (Some t)
      with v f show ?thesis by (cases "render t (v ++ kw)") (auto simp: write_stage_def)
    qed
  qed
qed

lemma write_stage_ok:
  assumes "get_var_dict self stage = Inr v" and "infile self stage = Inr f"
    and "map_of (TEMPLATES env) stage = Some t" and "render t (v ++ kw) = Inr text"
  shows "write_stage env self stage kw tr = (Inr f, tr @ [OpenW f, WriteF f text])"
  using assms by (simp add: write_stage_def)

subsection \<open>The stub set-up\<close>

lemma stub_basename: "basename (DRAWMEMBRANE (stub_env s g)) = ''draw_membrane2a''"
  by (simp add: stub_env_def basename_def)

lemma stub_BornAPBSmem_init:
  "\<exists>self. BornAPBSmem_init (stub_env s g) [PyStr ''prot.pqr'', PyStr ''ion.pqr'', PyStr ''cpx.pqr'']
             None None [] [] = (Inr self, [])"
  by (simp add: BornAPBSmem_init_def Let_def BaseMem_init_def object_init_def popped_def
        stub_basename reshape_def concatenate_def)

lemma stub_APBSmem_init:
  "\<exists>self. APBSmem_init (stub_env s g) [PyStr ''prot.pqr'', PyStr ''_L''] None None [] [] =
             (Inr self, [])"
  by (simp add: APBSmem_init_def Let_def BaseMem_init_def object_init_def popped_def stub_basename)

subsection \<open>C8: a missing required slot\<close>

text \<open>
  Claim C8. For every stage and parameter bag, if a slot declared in the stage's
  required-slot list is absent from the instance's fields, rendering that stage fails
  with a template error (Python's KeyError, naming a declared slot that is absent), and
  no file is written: the trace is unchanged, so the file is not even opened. The keyword
  overrides \<open>kw\<close> do not help, because the slot dictionary is built before they are
  merged in.
\<close>

theorem missing_slot_fails_before_writing:
  assumes "k \<in> set (declared self stage)" and "dict self (strip k) = None"
  shows "\<exists>k'\<in>set (declared self stage). dict self (strip k') = None \<and>
           write_stage env self stage kw tr = (Inl (KeyError (strip k')), tr)"
proof -
  from assms(1) obtain sl where sl: "map_of (vars self) stage = Some sl"
    by (cases "map_of (vars self) stage") (auto simp: declared_def)
  with assms have "k \<in> set (split (CHR '','') sl)" by (simp add: declared_def)
  from write_stage_missing_slot [OF sl this assms(2)] sl show ?thesis
    by (simp add: declared_def)
qed

theorem missing_slot_fails_before_writing_witness:
  "write_stage (stub_env 0 0)
     \<lparr>dict = [''pqr'' \<mapsto> PyStr ''prot.pqr''], vars = [(''dummy'', ''pqr,suffix'')],
      filenames = [(''dummy'', ''dummy.in'')]\<rparr>
     ''dummy'' Map.empty [] = (Inl (KeyError ''suffix''), [])"
  using missing_slot_fails_before_writing [of "''suffix''"
     "\<lparr>dict = [''pqr'' \<mapsto> PyStr ''prot.pqr''], vars = [(''dummy'', ''pqr,suffix'')],
      filenames = [(''dummy'', ''dummy.in'')]\<rparr>" "''dummy''" "stub_env 0 0" Map.empty "[]"]
  by (auto simp: declared_def strip_def is_space_def)

subsection \<open>C10: the input file names of BornAPBSmem\<close>

text \<open>
  Claim C10. For every BornAPBSmem instance, whatever the constructor's arguments, the
  input file names of the two stages are the constants \<^verbatim>\<open>mem_dummy.in\<close> (born_dummy) and
  \<^verbatim>\<open>mem_placeion.in\<close> (born_run); rendering a stage touches no other file. The suffix is
  the empty string, so it shows only in the solver's output file name, which is the stage
  name followed by \<^verbatim>\<open>.out\<close>.
\<close>

theorem BornAPBSmem_input_filenames:
  assumes "BornAPBSmem_init env args dime_kw glen_kw kw tr = (Inr self, tr')"
  shows "filenames self = [(''born_dummy'', ''mem_dummy.in''), (''born_run'', ''mem_placeion.in'')]
       \<and> infile self ''born_dummy'' = Inr ''mem_dummy.in''
       \<and> infile self ''born_run'' = Inr ''mem_placeion.in''
       \<and> list_all (touches ''mem_dummy.in'')
            (drop (length tr0) (snd (write_stage env self ''born_dummy'' kw0 tr0)))
       \<and> list_all (touches ''mem_placeion.in'')
            (drop (length tr0) (snd (write_stage env self ''born_run'' kw0 tr0)))
       \<and> outfile self stage = Inr (stage @ ''.out'')"
proof -
  note f = BornAPBSmem_init_Inr(3) [OF assms]
  have i1: "infile self ''born_dummy'' = Inr ''mem_dummy.in''"
    and i2: "infile self ''born_run'' = Inr ''mem_placeion.in''"
    by (simp_all add: infile_def f)
  have o: "outfile self stage = Inr (stage @ ''.out'')"
    by (simp add: outfile_def BornAPBSmem_dict(4) [OF assms])
  have w1: "list_all (touches ''mem_dummy.in'')
            (drop (length tr0) (snd (write_stage env self ''born_dummy'' kw0 tr0)))"
    using write_stage_events [of env self "''born_dummy''" kw0 tr0] i1 by auto
  have w2: "list_all (touches ''mem_placeion.in'')
            (drop (length tr0) (snd (write_stage env self ''born_run'' kw0 tr0)))"
    using write_stage_events [of env self "''born_run''" kw0 tr0] i2 by auto
  from f i1 i2 o w1 w2 show ?thesis by simp
qed

theorem BornAPBSmem_input_filenames_witness:
  "\<exists>self. BornAPBSmem_init (stub_env 0 0) [PyStr ''prot.pqr'', PyStr ''ion.pqr'', PyStr ''cpx.pqr'']
             None None [] [] = (Inr self, [])
         \<and> infile self ''born_dummy'' = Inr ''mem_dummy.in''
         \<and> infile self ''born_run'' = Inr ''mem_placeion.in''
         \<and> outfile self ''born_dummy'' = Inr ''born_dummy.out''"
proof -
  from stub_BornAPBSmem_init [of 0 0] obtain self where
    init: "BornAPBSmem_init (stub_env 0 0) [PyStr ''prot.pqr'', PyStr ''ion.pqr'', PyStr ''cpx.pqr'']
             None None [] [] = (Inr self, [])" by blast
  from BornAPBSmem_input_filenames [OF init, of "[]" Map.empty "''born_dummy''"] init
  show ?thesis by auto
qed

subsection \<open>C9: the name of the geometry tool\<close>

text \<open>
  Claim C9. Constructing a parameter store emits a warning exactly when the basename of
  the configured geometry tool is not \<^verbatim>\<open>draw_membrane2a\<close>, and the mismatch raises
  nothing: whether \<^verbatim>\<open>BaseMem.__init__\<close> succeeds depends on the left-over arguments only.
  The same holds for the trace of the two subclass constructors once they reach
  \<^verbatim>\<open>BaseMem.__init__\<close>.
\<close>

theorem name_mismatch_only_warns:
  "snd (BaseMem_init env args kw self tr) =
     (if basename (DRAWMEMBRANE env) = ''draw_membrane2a'' then tr
      else tr @ [Warn (DRAWMEMBRANE env) (CONFIGNAME env)])
   \<and> fst (BaseMem_init env args kw self tr) =
       (if args = [] \<and> popped BaseMem_keywords kw = []
        then Inr (self\<lparr>dict := BaseMem_attrs kw (dict self)\<rparr>)
        else Inl (TypeError ''object.__init__() takes no parameters''))
   \<and> snd (APBSmem_init env (pqr # suffix # rest) dime_kw glen_kw kw tr) =
       (if basename (DRAWMEMBRANE env) = ''draw_membrane2a'' then tr
        else tr @ [Warn (DRAWMEMBRANE env) (CONFIGNAME env)])
   \<and> snd (BornAPBSmem_init env (protein_pqr # ion_pqr # complex_pqr # rest) None None kw tr) =
       (if basename (DRAWMEMBRANE env) = ''draw_membrane2a'' then tr
        else tr @ [Warn (DRAWMEMBRANE env) (CONFIGNAME env)])"
  by (simp add: BaseMem_init_trace BaseMem_init_result APBSmem_init_def BornAPBSmem_init_def
        Let_def reshape_def concatenate_def)

theorem name_mismatch_only_warns_witness:
  "snd (APBSmem_init (stub_env 0 0\<lparr>DRAWMEMBRANE := ''/usr/local/bin/draw_membrane4''\<rparr>)
          [PyStr ''prot.pqr'', PyStr ''_L''] None None [] []) =
     [Warn ''/usr/local/bin/draw_membrane4'' ''~/.bornprofiler.cfg'']
   \<and> snd (APBSmem_init (stub_env 0 0) [PyStr ''prot.pqr'', PyStr ''_L''] None None [] []) = []"
  using name_mismatch_only_warns
      [of "stub_env 0 0\<lparr>DRAWMEMBRANE := ''/usr/local/bin/draw_membrane4''\<rparr>" "[]" "[]"
          "\<lparr>dict = Map.empty, vars = [], filenames = []\<rparr>" "[]"
          "PyStr ''prot.pqr''" "PyStr ''_L''" "[]" None None]
    name_mismatch_only_warns
      [of "stub_env 0 0" "[]" "[]" "\<lparr>dict = Map.empty, vars = [], filenames = []\<rparr>" "[]"
          "PyStr ''prot.pqr''" "PyStr ''_L''" "[]" None None]
  by (simp add: stub_env_def basename_def)

subsection \<open>C5: grid dimensions of the wrong shape\<close>

text \<open>
  Claim C5. For every grid-dimension array whose shape is neither \<open>(3,)\<close> nor \<open>(3,3)\<close>,
  constructing a BornAPBSmem fails, with the TypeError of the shape check whenever the
  three positional pqr arguments are there, and the trace is unchanged: no file is
  written and no process is spawned.
\<close>

theorem bad_dime_shape_rejected:
  assumes "shape d \<noteq> [3]" and "shape d \<noteq> [3, 3]"
  shows "\<exists>e. BornAPBSmem_init env args (Some d) glen_kw kw tr = (Inl e, tr)
           \<and> (3 \<le> length args \<longrightarrow>
                e = TypeError ''dime must be a triplet of values or a triplet of such triplets'')"
  using assms by (auto simp: BornAPBSmem_init_def Let_def split: list.splits)

theorem bad_dime_shape_rejected_witness:
  "BornAPBSmem_init (stub_env 0 0) [PyStr ''prot.pqr'', PyStr ''ion.pqr'', PyStr ''cpx.pqr'']
     (Some \<lparr>shape = [2], data = [PyInt 97, PyInt 97]\<rparr>) None [] [] =
   (Inl (TypeError ''dime must be a triplet of values or a triplet of such triplets''), [])"
  using bad_dime_shape_rejected [of "\<lparr>shape = [2], data = [PyInt 97, PyInt 97]\<rparr>" "stub_env 0 0"
      "[PyStr ''prot.pqr'', PyStr ''ion.pqr'', PyStr ''cpx.pqr'']" None "[]" "[]"]
  by auto

end
